theory Spec2Isabelle
  imports Main "HOL-Library.Sublist"
begin

section \<open>Equipment lending portal: data model\<close>

text \<open>
  The portal is a React front end (page components holding their own state through
  \<^verbatim>\<open>useState\<close>) and an Express router. Each component's state is a record,
  each handler a function from the state before the click to the state after it. The
  status and role labels, which the JavaScript writes as string literals, are datatypes.
\<close>

datatype status = Pending | Approved | Rejected | Returned

datatype role = Student | Staff | Admin

text \<open>The user object \<^verbatim>\<open>{id, name, email, role}\<close> handed to every page.\<close>

record user =
  uid :: string
  name :: string
  email :: string
  role :: role

text \<open>
  A row of \<^verbatim>\<open>mockRequestsData\<close> in the RequestsManagement page. The three
  decision fields are \<^verbatim>\<open>null\<close> until a decision is recorded.
\<close>

record request =
  reqId :: nat
  studentName :: string
  studentId :: string
  studentEmail :: string
  equipmentName :: string
  equipmentId :: nat
  requestedDate :: string
  borrowFromDate :: string
  borrowToDate :: string
  purpose :: string
  status :: status
  approvedBy :: "string option"
  approvalDate :: "string option"
  reqNotes :: "string option"

section \<open>RequestsManagement page\<close>

datatype status_filter = AllStatuses | Only status

text \<open>
  The pending action \<^verbatim>\<open>{id, action}\<close> kept in \<^verbatim>\<open>actionModal\<close>; the action is
  one of the literals \<^verbatim>\<open>'approve'\<close>, \<^verbatim>\<open>'reject'\<close>, \<^verbatim>\<open>'return'\<close>.
\<close>

datatype action = ApproveAction | RejectAction | ReturnAction

record rm_state =
  requests :: "request list"
  searchTerm :: string
  filterStatus :: status_filter
  actionModal :: "(nat \<times> action) option"
  actionNotes :: string
  viewDetails :: "request option"

definition mockRequestsData :: "request list" where
  "mockRequestsData =
    [\<lparr>reqId = 1, studentName = ''John Student'', studentId = ''STU001'',
      studentEmail = ''student@example.com'', equipmentName = ''Basketball Set'',
      equipmentId = 1, requestedDate = ''2025-11-02'', borrowFromDate = ''2025-11-05'',
      borrowToDate = ''2025-11-10'', purpose = ''Sports practice and tournament'',
      status = Pending, approvedBy = None, approvalDate = None, reqNotes = None\<rparr>,
     \<lparr>reqId = 2, studentName = ''Jane Doe'', studentId = ''STU002'',
      studentEmail = ''jane@example.com'', equipmentName = ''Microscope'',
      equipmentId = 2, requestedDate = ''2025-11-02'', borrowFromDate = ''2025-11-06'',
      borrowToDate = ''2025-11-08'', purpose = ''Biology lab experiment'',
      status = Pending, approvedBy = None, approvalDate = None, reqNotes = None\<rparr>,
     \<lparr>reqId = 3, studentName = ''Mike Johnson'', studentId = ''STU003'',
      studentEmail = ''mike@example.com'', equipmentName = ''Digital Camera'',
      equipmentId = 3, requestedDate = ''2025-11-01'', borrowFromDate = ''2025-11-03'',
      borrowToDate = ''2025-11-05'', purpose = ''Photography project'',
      status = Approved, approvedBy = Some ''Admin User'',
      approvalDate = Some ''2025-11-01'',
      reqNotes = Some ''Approved - return in good condition''\<rparr>,
     \<lparr>reqId = 4, studentName = ''Sarah Smith'', studentId = ''STU004'',
      studentEmail = ''sarah@example.com'', equipmentName = ''Laptop'',
      equipmentId = 5, requestedDate = ''2025-11-01'', borrowFromDate = ''2025-11-02'',
      borrowToDate = ''2025-11-04'', purpose = ''Programming assignment'',
      status = Returned, approvedBy = Some ''Admin User'',
      approvalDate = Some ''2025-11-01'', reqNotes = Some ''Returned in good condition''\<rparr>,
     \<lparr>reqId = 5, studentName = ''Tom Wilson'', studentId = ''STU005'',
      studentEmail = ''tom@example.com'', equipmentName = ''Guitar'',
      equipmentId = 4, requestedDate = ''2025-10-31'', borrowFromDate = ''2025-11-01'',
      borrowToDate = ''2025-11-03'', purpose = ''Musical practice'',
      status = Rejected, approvedBy = Some ''Admin User'',
      approvalDate = Some ''2025-10-31'',
      reqNotes = Some ''Equipment damaged - not available''\<rparr>]"

text \<open>The state the page mounts with: the \<^verbatim>\<open>useState\<close> initial values.\<close>

definition initialState :: rm_state where
  "initialState =
    \<lparr>requests = mockRequestsData, searchTerm = [], filterStatus = AllStatuses,
     actionModal = None, actionNotes = [], viewDetails = None\<rparr>"

text \<open>
  \<^verbatim>\<open>new Date().toISOString().split('T')[0]\<close>: the clock is an input, given as the
  ISO string \<open>now\<close> that \<^verbatim>\<open>toISOString\<close> returns; the date is what precedes the
  first \<^verbatim>\<open>T\<close>.
\<close>

definition isoDay :: "string \<Rightarrow> string" where
  "isoDay now = takeWhile (\<lambda>c. c \<noteq> CHR ''T'') now"

text \<open>
  The three handlers. Each maps over the whole list and rewrites every element whose
  \<^verbatim>\<open>id\<close> equals the argument, with no test of the current status; each then
  closes the modal and clears the notes box. (The closing \<^verbatim>\<open>alert\<close> is a browser
  dialog and touches no state.)
\<close>

definition handleApprove :: "user \<Rightarrow> string \<Rightarrow> nat \<Rightarrow> rm_state \<Rightarrow> rm_state" where
  "handleApprove usr now requestId st =
    st\<lparr>requests :=
         map (\<lambda>req. if reqId req = requestId
                then req\<lparr>status := Approved,
                         approvedBy := Some (name usr),
                         approvalDate := Some (isoDay now),
                         reqNotes := Some (actionNotes st)\<rparr>
                else req) (requests st),
       actionModal := None,
       actionNotes := []\<rparr>"

definition handleReject :: "user \<Rightarrow> string \<Rightarrow> nat \<Rightarrow> rm_state \<Rightarrow> rm_state" where
  "handleReject usr now requestId st =
    st\<lparr>requests :=
         map (\<lambda>req. if reqId req = requestId
                then req\<lparr>status := Rejected,
                         approvedBy := Some (name usr),
                         approvalDate := Some (isoDay now),
                         reqNotes := Some (actionNotes st)\<rparr>
                else req) (requests st),
       actionModal := None,
       actionNotes := []\<rparr>"

text \<open>
  \<^verbatim>\<open>notes: actionNotes || req.notes\<close>: an empty notes box is falsy, so the old notes
  stay.
\<close>

definition handleMarkReturned :: "nat \<Rightarrow> rm_state \<Rightarrow> rm_state" where
  "handleMarkReturned requestId st =
    st\<lparr>requests :=
         map (\<lambda>req. if reqId req = requestId
                then req\<lparr>status := Returned,
                         reqNotes := (if actionNotes st \<noteq> [] then Some (actionNotes st)
                                   else reqNotes req)\<rparr>
                else req) (requests st),
       actionModal := None,
       actionNotes := []\<rparr>"


text \<open>
  \<^verbatim>\<open>String.prototype.toLowerCase\<close> is the platform's and folds every cased letter of
  Unicode; it is a parameter \<open>toLowerCase\<close> of the filter and of everything that
  shows the filtered rows. \<open>asciiLowerCase\<close> is its restriction to strings of ASCII
  characters, where only the letters A to Z change; it stands in for the parameter when
  the filter is evaluated on such strings.
\<close>

definition asciiLowerChar :: "char \<Rightarrow> char" where
  "asciiLowerChar c =
    (case map_of (zip ''ABCDEFGHIJKLMNOPQRSTUVWXYZ'' ''abcdefghijklmnopqrstuvwxyz'') c of
       Some l \<Rightarrow> l
     | None \<Rightarrow> c)"

definition asciiLowerCase :: "string \<Rightarrow> string" where
  "asciiLowerCase s = map asciiLowerChar s"

text \<open>\<^verbatim>\<open>s.includes(t)\<close>: \<open>t\<close> occurs in \<open>s\<close> as a contiguous run.\<close>

fun includes_str :: "string \<Rightarrow> string \<Rightarrow> bool" where
  "includes_str [] t = (t = [])"
| "includes_str (c # cs) t = (prefix t (c # cs) \<or> includes_str cs t)"

text \<open>
  \<^verbatim>\<open>getFilteredRequests\<close>: the search filter runs only for a non-empty term and looks
  at three fields, the student's name, the equipment's name and the student's id; the status
  filter runs unless the selection is \<^verbatim>\<open>'all'\<close>.
\<close>

definition getFilteredRequests :: "(string \<Rightarrow> string) \<Rightarrow> rm_state \<Rightarrow> request list" where
  "getFilteredRequests toLowerCase st =
    (let filtered = requests st;
         filtered =
           (if searchTerm st \<noteq> [] then
              filter (\<lambda>req.
                  includes_str (toLowerCase (studentName req)) (toLowerCase (searchTerm st))
                \<or> includes_str (toLowerCase (equipmentName req)) (toLowerCase (searchTerm st))
                \<or> includes_str (toLowerCase (studentId req)) (toLowerCase (searchTerm st)))
                filtered
            else filtered);
         filtered =
           (if filterStatus st \<noteq> AllStatuses then
              filter (\<lambda>req. Only (status req) = filterStatus st) filtered
            else filtered)
     in filtered)"

subsection \<open>The page's controls\<close>

text \<open>
  What the rendered page lets the admin do. The table shows one row per element of
  \<^verbatim>\<open>getFilteredRequests()\<close>; a row carries the Approve and Reject buttons only
  when its status is pending and the Returned button only when its status is approved. A
  button stores \<^verbatim>\<open>{id, action}\<close> in \<^verbatim>\<open>actionModal\<close>; the modal's confirm
  button calls the handler for the stored action with the stored id. An event that the
  page does not offer in the current state gives \<open>None\<close>. The confirm event carries
  the clock reading of that moment.
\<close>

datatype event =
    TypeSearch string
  | SelectFilter status_filter
  | ClickView nat
  | CloseDetails
  | ClickApprove nat
  | ClickReject nat
  | ClickReturn nat
  | TypeNotes string
  | CancelModal
  | ConfirmModal string

fun step :: "(string \<Rightarrow> string) \<Rightarrow> user \<Rightarrow> event \<Rightarrow> rm_state \<Rightarrow> rm_state option" where
  "step toLowerCase usr (TypeSearch s) st = Some (st\<lparr>searchTerm := s\<rparr>)"
| "step toLowerCase usr (SelectFilter f) st = Some (st\<lparr>filterStatus := f\<rparr>)"
| "step toLowerCase usr (ClickView i) st =
     (if i < length (getFilteredRequests toLowerCase st)
      then Some (st\<lparr>viewDetails := Some (getFilteredRequests toLowerCase st ! i)\<rparr>)
      else None)"
| "step toLowerCase usr CloseDetails st =
     (if viewDetails st \<noteq> None then Some (st\<lparr>viewDetails := None\<rparr>) else None)"
| "step toLowerCase usr (ClickApprove i) st =
     (if i < length (getFilteredRequests toLowerCase st)
         \<and> status (getFilteredRequests toLowerCase st ! i) = Pending
      then Some (st\<lparr>actionModal :=
                     Some (reqId (getFilteredRequests toLowerCase st ! i), ApproveAction)\<rparr>)
      else None)"
| "step toLowerCase usr (ClickReject i) st =
     (if i < length (getFilteredRequests toLowerCase st)
         \<and> status (getFilteredRequests toLowerCase st ! i) = Pending
      then Some (st\<lparr>actionModal :=
                     Some (reqId (getFilteredRequests toLowerCase st ! i), RejectAction)\<rparr>)
      else None)"
| "step toLowerCase usr (ClickReturn i) st =
     (if i < length (getFilteredRequests toLowerCase st)
         \<and> status (getFilteredRequests toLowerCase st ! i) = Approved
      then Some (st\<lparr>actionModal :=
                     Some (reqId (getFilteredRequests toLowerCase st ! i), ReturnAction)\<rparr>)
      else None)"
| "step toLowerCase usr (TypeNotes s) st =
     (if actionModal st \<noteq> None then Some (st\<lparr>actionNotes := s\<rparr>) else None)"
| "step toLowerCase usr CancelModal st =
     (if actionModal st \<noteq> None then Some (st\<lparr>actionModal := None\<rparr>) else None)"
| "step toLowerCase usr (ConfirmModal now) st =
     (case actionModal st of
        None \<Rightarrow> None
      | Some (rid, ApproveAction) \<Rightarrow> Some (handleApprove usr now rid st)
      | Some (rid, RejectAction) \<Rightarrow> Some (handleReject usr now rid st)
      | Some (rid, ReturnAction) \<Rightarrow> Some (handleMarkReturned rid st))"

fun run :: "(string \<Rightarrow> string) \<Rightarrow> user \<Rightarrow> event list \<Rightarrow> rm_state \<Rightarrow> rm_state option" where
  "run toLowerCase usr [] st = Some st"
| "run toLowerCase usr (ev # evs) st =
     (case step toLowerCase usr ev st of None \<Rightarrow> None
      | Some st' \<Rightarrow> run toLowerCase usr evs st')"

text \<open>The three edges of the request life cycle.\<close>

definition edge :: "status \<Rightarrow> status \<Rightarrow> bool" where
  "edge a b =
    ((a = Pending \<and> b = Approved) \<or> (a = Pending \<and> b = Rejected)
     \<or> (a = Approved \<and> b = Returned))"

text \<open>
  The status a rendered button requires of its row, and the invariant that an open modal
  still points at a request in that status.
\<close>

definition requiredStatus :: "action \<Rightarrow> status" where
  "requiredStatus a = (case a of ReturnAction \<Rightarrow> Approved | _ \<Rightarrow> Pending)"

definition modalConsistent :: "rm_state \<Rightarrow> bool" where
  "modalConsistent st =
    (case actionModal st of
       None \<Rightarrow> True
     | Some (rid, a) \<Rightarrow>
         list_all (\<lambda>r. reqId r \<noteq> rid \<or> status r = requiredStatus a) (requests st))"


text \<open>The admin of \<^verbatim>\<open>mockUsers\<close>, used where a concrete acting user is needed.\<close>

definition adminUser :: user where
  "adminUser =
    \<lparr>uid = ''3'', name = ''Admin User'', email = ''admin@example.com'', role = Admin\<rparr>"

section \<open>AdminDashboard page\<close>

text \<open>
  The dashboard keeps its own, shorter request rows and its own copies of the approve and
  reject handlers, which write the status and nothing else.
\<close>

record recent_request =
  rrId :: nat
  rrStudentName :: string
  rrStudentId :: string
  rrEquipmentName :: string
  rrRequestedDate :: string
  rrStatus :: status

record ad_state =
  adRequests :: "recent_request list"
  selectedRequest :: "recent_request option"
  adActionModal :: "(nat \<times> action) option"

definition handleApproveRequest :: "nat \<Rightarrow> ad_state \<Rightarrow> ad_state" where
  "handleApproveRequest requestId st =
    st\<lparr>adRequests :=
         map (\<lambda>req. if rrId req = requestId then req\<lparr>rrStatus := Approved\<rparr> else req)
           (adRequests st),
       adActionModal := None\<rparr>"

definition handleRejectRequest :: "nat \<Rightarrow> ad_state \<Rightarrow> ad_state" where
  "handleRejectRequest requestId st =
    st\<lparr>adRequests :=
         map (\<lambda>req. if rrId req = requestId then req\<lparr>rrStatus := Rejected\<rparr> else req)
           (adRequests st),
       adActionModal := None\<rparr>"

section \<open>Equipment inventory\<close>

text \<open>
  An equipment item as the StudentDashboard page holds it
  (\<^verbatim>\<open>{id, name, category, description, condition, quantity, available, image}\<close>;
  \<^verbatim>\<open>image\<close> is \<^verbatim>\<open>null\<close> throughout).
\<close>

record equipment =
  eqId :: nat
  eqName :: string
  category :: string
  description :: string
  condition :: string
  quantity :: nat
  available :: nat

text \<open>
  The inventory lives in the state of the equipment pages, the requests in the state of
  the admin pages. A handler of a page has only that page's \<^verbatim>\<open>useState\<close> setters
  in scope; the portal puts the pieces side by side, and an action of the requests page or
  of the dashboard is that page's handler applied to its own piece.
\<close>

record portal =
  page :: rm_state
  dashboard :: ad_state
  inventory :: "equipment list"

definition approveOnPage :: "user \<Rightarrow> string \<Rightarrow> nat \<Rightarrow> portal \<Rightarrow> portal" where
  "approveOnPage usr now requestId p = p\<lparr>page := handleApprove usr now requestId (page p)\<rparr>"

definition approveOnDashboard :: "nat \<Rightarrow> portal \<Rightarrow> portal" where
  "approveOnDashboard requestId p =
    p\<lparr>dashboard := handleApproveRequest requestId (dashboard p)\<rparr>"

definition returnOnPage :: "nat \<Rightarrow> portal \<Rightarrow> portal" where
  "returnOnPage requestId p = p\<lparr>page := handleMarkReturned requestId (page p)\<rparr>"

text \<open>The available counts of the items with a given id (one item, when ids are unique).\<close>

definition availableOf :: "nat \<Rightarrow> equipment list \<Rightarrow> nat list" where
  "availableOf eid items = map available (filter (\<lambda>e. eqId e = eid) items)"

text \<open>
  A portal to evaluate on: the requests page as mounted, one more pending request (id 6)
  for the toolkit, which the StudentDashboard's mock inventory lists with no unit
  available, the basketball set of the pending request 1 and the camera of the approved
  request 3.
\<close>

definition toolkitRequest :: request where
  "toolkitRequest =
    \<lparr>reqId = 6, studentName = ''Jane Doe'', studentId = ''STU002'',
     studentEmail = ''jane@example.com'', equipmentName = ''Toolkit'',
     equipmentId = 6, requestedDate = ''2025-11-02'', borrowFromDate = ''2025-11-06'',
     borrowToDate = ''2025-11-08'', purpose = ''Workshop'',
     status = Pending, approvedBy = None, approvalDate = None, reqNotes = None\<rparr>"

definition samplePortal :: portal where
  "samplePortal =
    \<lparr>page = initialState\<lparr>requests := mockRequestsData @ [toolkitRequest]\<rparr>,
     dashboard = \<lparr>adRequests =
         [\<lparr>rrId = 1, rrStudentName = ''John Student'', rrStudentId = ''STU001'',
           rrEquipmentName = ''Basketball Set'', rrRequestedDate = ''2025-11-02'',
           rrStatus = Pending\<rparr>],
        selectedRequest = None, adActionModal = None\<rparr>,
     inventory =
       [\<lparr>eqId = 1, eqName = ''Basketball Set'', category = ''Sports'',
         description = ''Professional basketball set with 5 balls and pump'',
         condition = ''Good'', quantity = 5, available = 3\<rparr>,
        \<lparr>eqId = 3, eqName = ''Digital Camera'', category = ''Camera'',
         description = ''24MP DSLR camera with lenses'', condition = ''Good'', quantity = 4, available = 2\<rparr>,
        \<lparr>eqId = 6, eqName = ''Toolkit'', category = ''Tools'',
         description = ''Complete toolkit with 50+ tools'', condition = ''Good'', quantity = 2, available = 0\<rparr>]\<rparr>"

text \<open>
  What holds of the page in every state its controls can reach: request ids are unique
  and an open modal points at a request in the status its button required.
\<close>

definition pageInv :: "rm_state \<Rightarrow> bool" where
  "pageInv st = (distinct (map reqId (requests st)) \<and> modalConsistent st)"

section \<open>Client-side session store (services/api.js)\<close>

text \<open>
  \<^verbatim>\<open>localStorage\<close> is a map from keys to strings; \<^verbatim>\<open>getItem\<close> of an absent
  key is \<^verbatim>\<open>null\<close>, here \<open>None\<close>.
\<close>

type_synonym storage = "string \<rightharpoonup> string"

definition TOKEN_KEY :: string where
  "TOKEN_KEY = ''equipmentPortal_token''"

definition USER_KEY :: string where
  "USER_KEY = ''equipmentPortal_user''"

text \<open>
  \<^verbatim>\<open>if (token) localStorage.setItem(TOKEN_KEY, token)\<close>: a missing token and the
  empty string are falsy and store nothing.
\<close>

definition setToken :: "string option \<Rightarrow> storage \<Rightarrow> storage" where
  "setToken token ls =
    (case token of
       None \<Rightarrow> ls
     | Some t \<Rightarrow> if t \<noteq> [] then ls(TOKEN_KEY \<mapsto> t) else ls)"

definition getToken :: "storage \<Rightarrow> string option" where
  "getToken ls = ls TOKEN_KEY"

definition clearToken :: "storage \<Rightarrow> storage" where
  "clearToken ls = ls(TOKEN_KEY := None)"

text \<open>
  \<^verbatim>\<open>JSON.stringify\<close> and \<^verbatim>\<open>JSON.parse\<close> are the platform's; they are taken as
  parameters, \<open>parse\<close> giving \<open>None\<close> where \<^verbatim>\<open>JSON.parse\<close> throws a
  \<^verbatim>\<open>SyntaxError\<close>.
\<close>

definition setUser :: "('u \<Rightarrow> string) \<Rightarrow> 'u option \<Rightarrow> storage \<Rightarrow> storage" where
  "setUser stringify usr ls =
    (case usr of None \<Rightarrow> ls | Some u \<Rightarrow> ls(USER_KEY \<mapsto> stringify u))"

datatype js_error = SyntaxError

text \<open>
  \<^verbatim>\<open>const user = localStorage.getItem(USER_KEY); return user ? JSON.parse(user) : null\<close>:
  \<open>Inr None\<close> is the \<^verbatim>\<open>null\<close> of the absent (or empty) entry.
\<close>

definition getUser :: "(string \<Rightarrow> 'u option) \<Rightarrow> storage \<Rightarrow> js_error + 'u option" where
  "getUser parse ls =
    (case ls USER_KEY of
       None \<Rightarrow> Inr None
     | Some s \<Rightarrow>
         if s = [] then Inr None
         else (case parse s of None \<Rightarrow> Inl SyntaxError | Some u \<Rightarrow> Inr (Some u)))"

definition clearUser :: "storage \<Rightarrow> storage" where
  "clearUser ls = ls(USER_KEY := None)"

definition clearAuthData :: "storage \<Rightarrow> storage" where
  "clearAuthData ls = clearUser (clearToken ls)"

definition authLogout :: "storage \<Rightarrow> storage" where
  "authLogout ls = clearAuthData ls"

section \<open>LoginForm component\<close>

text \<open>An entry of \<^verbatim>\<open>mockUsers\<close>: a user with the password beside it.\<close>

record account = user +
  password :: string

definition mockUsers :: "account list" where
  "mockUsers =
    [\<lparr>uid = ''1'', name = ''John Student'', email = ''student@example.com'',
      role = Student, password = ''password123''\<rparr>,
     \<lparr>uid = ''2'', name = ''Jane Staff'', email = ''staff@example.com'',
      role = Staff, password = ''password123''\<rparr>,
     \<lparr>uid = ''3'', name = ''Admin User'', email = ''admin@example.com'',
      role = Admin, password = ''password123''\<rparr>]"

record login_form =
  formEmail :: string
  formPassword :: string
  formRole :: role

text \<open>
  The pattern \<^verbatim>\<open>/^[^\s@]+@[^\s@]+\.[^\s@]+$/\<close>. A character of the class
  \<^verbatim>\<open>[^\s@]\<close> is neither white space (of the 8-bit characters: tab, line feed,
  vertical tab, form feed, carriage return, space, no-break space) nor \<^verbatim>\<open>@\<close>. The
  test holds when the string splits at some \<^verbatim>\<open>@\<close> at position \<open>i\<close> and some dot
  at a later position \<open>j\<close> into three non-empty runs of that class.
\<close>

definition isSpace :: "char \<Rightarrow> bool" where
  "isSpace c = (c \<in> set [CHR 0x09, CHR 0x0A, CHR 0x0B, CHR 0x0C, CHR 0x0D, CHR 0x20, CHR 0xA0])"

definition classRun :: "string \<Rightarrow> bool" where
  "classRun s = (s \<noteq> [] \<and> list_all (\<lambda>c. \<not> isSpace c \<and> c \<noteq> CHR ''@'') s)"

definition emailRegex_test :: "string \<Rightarrow> bool" where
  "emailRegex_test s =
    list_ex (\<lambda>i.
      list_ex (\<lambda>j.
          classRun (take i s) \<and> s ! i = CHR ''@''
        \<and> classRun (take (j - (i + 1)) (drop (i + 1) s)) \<and> s ! j = CHR ''.''
        \<and> classRun (drop (j + 1) s))
        [i + 1 ..< length s])
      [0 ..< length s]"

text \<open>
  What one run of \<^verbatim>\<open>handleSubmit\<close> leaves behind: the error text and the loading
  flag of the form, the argument of the one call of \<^verbatim>\<open>onLogin\<close> if it was made,
  and the target of the one call of \<^verbatim>\<open>navigate\<close> if it was made. The handler has
  the browser's \<^verbatim>\<open>localStorage\<close> in scope like any other code of the page; it is
  passed through to show what becomes of it.
\<close>

record login_outcome =
  loginError :: string
  loading :: bool
  onLoginCall :: "user option"
  navigateCall :: "string option"

definition loginFailed :: "string \<Rightarrow> login_outcome" where
  "loginFailed msg =
    \<lparr>loginError = msg, loading = False, onLoginCall = None, navigateCall = None\<rparr>"

text \<open>
  \<^verbatim>\<open>handleSubmit\<close>: empty fields, then the e-mail pattern, then (after the simulated
  delay) the first entry of \<^verbatim>\<open>mockUsers\<close> whose e-mail, password and role all
  equal the form's. The entry found goes to \<^verbatim>\<open>onLogin\<close> without its password.
\<close>

definition handleSubmit :: "login_form \<Rightarrow> storage \<Rightarrow> login_outcome \<times> storage" where
  "handleSubmit formData ls =
    (if formEmail formData = [] \<or> formPassword formData = []
     then (loginFailed ''Please fill in all fields'', ls)
     else if \<not> emailRegex_test (formEmail formData)
     then (loginFailed ''Please enter a valid email address'', ls)
     else
       (case find (\<lambda>u. email u = formEmail formData
                        \<and> password u = formPassword formData
                        \<and> role u = formRole formData) mockUsers of
          None \<Rightarrow>
            (loginFailed
               ''Invalid email, password, or role. Please check your credentials.'', ls)
        | Some u \<Rightarrow>
            (\<lparr>loginError = [], loading = False,
              onLoginCall =
                Some \<lparr>uid = uid u, name = name u, email = email u, role = role u\<rparr>,
              navigateCall =
                Some (if role u = Admin then ''/admin-dashboard''
                      else ''/student-dashboard'')\<rparr>, ls)))"

section \<open>App component: route gating\<close>

text \<open>
  The element a route renders: a page component with the user it is given, or a redirect
  (\<^verbatim>\<open><Navigate to=... />\<close>).
\<close>

datatype element =
    LoginFormEl
  | StudentDashboardEl user
  | AdminDashboardEl user
  | BorrowHistoryEl user
  | EquipmentManagementEl user
  | BorrowEquipmentEl user
  | RequestsManagementEl user
  | NavigateEl string

text \<open>The nine \<^verbatim>\<open><Route>\<close> entries of \<^verbatim>\<open>App\<close>, with their \<^verbatim>\<open>path\<close> props.\<close>

datatype app_route =
    LoginRoute
  | StudentDashboardRoute
  | AdminDashboardRoute
  | BorrowHistoryRoute
  | EquipmentManagementRoute
  | BorrowEquipmentRoute
  | RequestsRoute
  | HomeRoute
  | CatchAllRoute

definition routePath :: "app_route \<Rightarrow> string" where
  "routePath rt =
    (case rt of
       LoginRoute \<Rightarrow> ''/login''
     | StudentDashboardRoute \<Rightarrow> ''/student-dashboard''
     | AdminDashboardRoute \<Rightarrow> ''/admin-dashboard''
     | BorrowHistoryRoute \<Rightarrow> ''/borrow-history''
     | EquipmentManagementRoute \<Rightarrow> ''/equipment-management''
     | BorrowEquipmentRoute \<Rightarrow> ''/borrow-equipment''
     | RequestsRoute \<Rightarrow> ''/requests''
     | HomeRoute \<Rightarrow> ''/''
     | CatchAllRoute \<Rightarrow> ''*'')"

text \<open>
  The \<^verbatim>\<open>element\<close> prop of each route, with the application's only state, the
  logged-in user or \<^verbatim>\<open>null\<close>. \<^verbatim>\<open>user && c ? a : b\<close> takes \<open>b\<close> when there is
  no user.
\<close>

definition routeElement :: "user option \<Rightarrow> app_route \<Rightarrow> element" where
  "routeElement usr rt =
    (case rt of
       LoginRoute \<Rightarrow> LoginFormEl
     | StudentDashboardRoute \<Rightarrow>
         (case usr of
            Some u \<Rightarrow> if role u = Student \<or> role u = Staff then StudentDashboardEl u
                      else NavigateEl ''/login''
          | None \<Rightarrow> NavigateEl ''/login'')
     | AdminDashboardRoute \<Rightarrow>
         (case usr of
            Some u \<Rightarrow> if role u = Admin then AdminDashboardEl u else NavigateEl ''/login''
          | None \<Rightarrow> NavigateEl ''/login'')
     | BorrowHistoryRoute \<Rightarrow>
         (case usr of Some u \<Rightarrow> BorrowHistoryEl u | None \<Rightarrow> NavigateEl ''/login'')
     | EquipmentManagementRoute \<Rightarrow>
         (case usr of
            Some u \<Rightarrow> if role u = Admin then EquipmentManagementEl u
                      else NavigateEl ''/login''
          | None \<Rightarrow> NavigateEl ''/login'')
     | BorrowEquipmentRoute \<Rightarrow>
         (case usr of Some u \<Rightarrow> BorrowEquipmentEl u | None \<Rightarrow> NavigateEl ''/login'')
     | RequestsRoute \<Rightarrow>
         (case usr of
            Some u \<Rightarrow> if role u = Admin then RequestsManagementEl u
                      else NavigateEl ''/login''
          | None \<Rightarrow> NavigateEl ''/login'')
     | HomeRoute \<Rightarrow>
         (case usr of
            Some u \<Rightarrow> if role u = Admin then NavigateEl ''/admin-dashboard''
                      else NavigateEl ''/student-dashboard''
          | None \<Rightarrow> NavigateEl ''/login'')
     | CatchAllRoute \<Rightarrow> NavigateEl ''/'')"

definition handleLogin :: "user \<Rightarrow> user option \<Rightarrow> user option" where
  "handleLogin userData usr = Some userData"

definition handleLogout :: "user option \<Rightarrow> user option" where
  "handleLogout usr = None"

text \<open>
  Visiting a location. Which route a location selects is decided by react-router (it
  compares without regard to letter case, ignores trailing slashes, decodes and ranks);
  that choice is the parameter \<open>matchRoute\<close>. The router renders the selected route's
  element and follows a redirect to the next location. The application state is the
  \<^verbatim>\<open>user\<close> of \<^verbatim>\<open>useState\<close>, which only \<^verbatim>\<open>handleLogin\<close> and
  \<^verbatim>\<open>handleLogout\<close> set; a visit returns it with the element shown. The fuel bounds
  the redirects followed; \<open>None\<close> is fuel run out.
\<close>

fun visit ::
  "(string \<Rightarrow> app_route) \<Rightarrow> nat \<Rightarrow> user option \<Rightarrow> string \<Rightarrow> (element \<times> user option) option"
  where
  "visit matchRoute 0 usr location = None"
| "visit matchRoute (Suc fuel) usr location =
     (case routeElement usr (matchRoute location) of
        NavigateEl target \<Rightarrow> visit matchRoute fuel usr target
      | el \<Rightarrow> Some (el, usr))"

text \<open>The three routes that render an admin page, and those pages.\<close>

definition adminRoutes :: "app_route list" where
  "adminRoutes = [AdminDashboardRoute, EquipmentManagementRoute, RequestsRoute]"

definition isAdminElement :: "element \<Rightarrow> bool" where
  "isAdminElement el =
    (case el of
       AdminDashboardEl u \<Rightarrow> True
     | EquipmentManagementEl u \<Rightarrow> True
     | RequestsManagementEl u \<Rightarrow> True
     | _ \<Rightarrow> False)"

definition isAdmin :: "user option \<Rightarrow> bool" where
  "isAdmin usr = (case usr of None \<Rightarrow> False | Some u \<Rightarrow> role u = Admin)"

text \<open>
  A matcher to evaluate visits with: trailing slashes are dropped, the letters A to Z
  folded, and the result compared with the eight literal paths; anything else selects the
  catch-all route.
\<close>

definition stripTrailingSlashes :: "string \<Rightarrow> string" where
  "stripTrailingSlashes s = rev (dropWhile (\<lambda>c. c = CHR ''/'') (rev s))"

definition matchPath :: "string \<Rightarrow> app_route" where
  "matchPath location =
    (case find (\<lambda>rt. stripTrailingSlashes (routePath rt)
                      = asciiLowerCase (stripTrailingSlashes location))
            [LoginRoute, StudentDashboardRoute, AdminDashboardRoute, BorrowHistoryRoute,
             EquipmentManagementRoute, BorrowEquipmentRoute, RequestsRoute, HomeRoute] of
       Some rt \<Rightarrow> rt
     | None \<Rightarrow> CatchAllRoute)"

definition studentUser :: user where
  "studentUser =
    \<lparr>uid = ''1'', name = ''John Student'', email = ''student@example.com'', role = Student\<rparr>"

section \<open>Request routes of the back end\<close>

text \<open>
  \<^verbatim>\<open>routes/requestRoutes.js\<close> registers each endpoint as a list of functions: the
  middleware in order, then the controller. The middleware and controller functions are
  imported from modules that are not part of the sources at hand; they are names here.
\<close>

datatype http_method = GET | POST

datatype middleware = authenticate | adminOnly | studentOnly

datatype controller =
    createRequest
  | getUserRequests
  | getAllRequests
  | approveRequest
  | rejectRequest
  | markReturned
  | getAdminStats

record route =
  verb :: http_method
  pattern :: string
  gates :: "middleware list"
  handler :: controller

definition requestRoutes :: "route list" where
  "requestRoutes =
    [\<lparr>verb = POST, pattern = ''/create'', gates = [authenticate, studentOnly],
      handler = createRequest\<rparr>,
     \<lparr>verb = GET, pattern = ''/user/:userId'', gates = [authenticate],
      handler = getUserRequests\<rparr>,
     \<lparr>verb = GET, pattern = ''/'', gates = [authenticate, adminOnly],
      handler = getAllRequests\<rparr>,
     \<lparr>verb = POST, pattern = ''/:requestId/approve'', gates = [authenticate, adminOnly],
      handler = approveRequest\<rparr>,
     \<lparr>verb = POST, pattern = ''/:requestId/reject'', gates = [authenticate, adminOnly],
      handler = rejectRequest\<rparr>,
     \<lparr>verb = POST, pattern = ''/:requestId/return'', gates = [authenticate, adminOnly],
      handler = markReturned\<rparr>,
     \<lparr>verb = GET, pattern = ''/admin/stats'', gates = [authenticate, adminOnly],
      handler = getAdminStats\<rparr>]"

definition adminControllers :: "controller list" where
  "adminControllers =
    [getAllRequests, approveRequest, rejectRequest, markReturned, getAdminStats]"

text \<open>
  How Express runs such a list: each function either answers the request, which ends the
  chain, or calls \<^verbatim>\<open>next()\<close>, handing the (possibly annotated) request to the
  following one. The behaviour of the functions is a parameter: \<open>mw\<close> for the
  middleware, \<open>ctl\<close> for the controllers, both over a server state \<open>'st\<close>.
\<close>

datatype ('rq, 'rs) passage = Next 'rq | Answer 'rs

fun runGates ::
  "(middleware \<Rightarrow> 'rq \<Rightarrow> 'st \<Rightarrow> ('rq, 'rs) passage \<times> 'st) \<Rightarrow> middleware list \<Rightarrow> 'rq \<Rightarrow> 'st
    \<Rightarrow> ('rq, 'rs) passage \<times> 'st" where
  "runGates mw [] rq st = (Next rq, st)"
| "runGates mw (g # gs) rq st =
     (case mw g rq st of
        (Answer rs, st') \<Rightarrow> (Answer rs, st')
      | (Next rq', st') \<Rightarrow> runGates mw gs rq' st')"

definition dispatch ::
  "(middleware \<Rightarrow> 'rq \<Rightarrow> 'st \<Rightarrow> ('rq, 'rs) passage \<times> 'st) \<Rightarrow> (controller \<Rightarrow> 'rq \<Rightarrow> 'st \<Rightarrow> 'rs \<times> 'st)
    \<Rightarrow> route \<Rightarrow> 'rq \<Rightarrow> 'st \<Rightarrow> 'rs \<times> 'st" where
  "dispatch mw ctl r rq st =
    (case runGates mw (gates r) rq st of
       (Answer rs, st') \<Rightarrow> (rs, st')
     | (Next rq', st') \<Rightarrow> ctl (handler r) rq' st')"

subsection \<open>The authorization gate\<close>

datatype auth_error = Unauthenticated | Forbidden

text \<open>
  An incoming request as far as the gate reads and writes it: the bearer token of the
  \<^verbatim>\<open>Authorization\<close> header, if any, and the actor context a passed gate attaches.
\<close>

record http_request =
  credential :: "string option"
  actor :: "user option"

text \<open>
  Modelled from the spec: \<^verbatim>\<open>middleware/authMiddleware.js\<close> (\<^verbatim>\<open>authenticate\<close>,
  \<^verbatim>\<open>adminOnly\<close>, \<^verbatim>\<open>studentOnly\<close>) is not among the sources. The contract of the
  specification's section 4.2, \<^verbatim>\<open>authorize(credential, allowedRoles)\<close>: it gives the
  actor context, or fails with \<^verbatim>\<open>Unauthenticated\<close> for a missing, invalid or expired
  credential and with \<^verbatim>\<open>Forbidden\<close> for a valid credential whose role is not among
  the allowed ones. Verifying a token is the opaque capability \<open>verify\<close>.
\<close>

definition authorize ::
  "(string \<Rightarrow> user option) \<Rightarrow> string option \<Rightarrow> role list \<Rightarrow> auth_error + user" where
  "authorize verify cred allowed =
    (case cred of
       None \<Rightarrow> Inl Unauthenticated
     | Some token \<Rightarrow>
         (case verify token of
            None \<Rightarrow> Inl Unauthenticated
          | Some u \<Rightarrow> if role u \<in> set allowed then Inr u else Inl Forbidden))"

text \<open>
  Modelled from the spec: the capability set of each of the three absent middleware
  functions. \<^verbatim>\<open>authenticate\<close> admits any authenticated actor, \<^verbatim>\<open>adminOnly\<close> the
  admin, \<^verbatim>\<open>studentOnly\<close> the requester roles student and staff (section 4.1,
  \<^verbatim>\<open>create\<close>).
\<close>

definition allowedRoles :: "middleware \<Rightarrow> role list" where
  "allowedRoles g =
    (case g of
       authenticate \<Rightarrow> [Student, Staff, Admin]
     | adminOnly \<Rightarrow> [Admin]
     | studentOnly \<Rightarrow> [Student, Staff])"

text \<open>
  Modelled from the spec: a middleware function as the gate of section 4.2, consulted
  before any state mutation. A failure is the answer and the server state is not
  touched; a success attaches the actor and calls \<^verbatim>\<open>next()\<close>.
\<close>

definition specGate ::
  "(string \<Rightarrow> user option) \<Rightarrow> middleware \<Rightarrow> http_request \<Rightarrow> 'st
    \<Rightarrow> (http_request, auth_error + 'a) passage \<times> 'st" where
  "specGate verify g rq st =
    (case authorize verify (credential rq) (allowedRoles g) of
       Inl err \<Rightarrow> (Answer (Inl err), st)
     | Inr u \<Rightarrow> (Next (rq\<lparr>actor := Some u\<rparr>), st))"

text \<open>Who is calling: the user the request's credential verifies to, if any.\<close>

definition caller :: "(string \<Rightarrow> user option) \<Rightarrow> http_request \<Rightarrow> user option" where
  "caller verify rq = (case credential rq of None \<Rightarrow> None | Some token \<Rightarrow> verify token)"

text \<open>The failure a caller who is not an admin meets at an admin-only route.\<close>

definition denial :: "user option \<Rightarrow> auth_error" where
  "denial usr = (case usr of None \<Rightarrow> Unauthenticated | Some u \<Rightarrow> Forbidden)"

text \<open>
  To evaluate a dispatch: a verifier that knows two tokens, and a controller stand-in
  that counts its runs in the state.
\<close>

definition sampleVerify :: "string \<Rightarrow> user option" where
  "sampleVerify token =
    (if token = ''token-of-student'' then Some studentUser
     else if token = ''token-of-admin'' then Some adminUser
     else None)"

definition countingController ::
  "controller \<Rightarrow> http_request \<Rightarrow> nat \<Rightarrow> (auth_error + nat) \<times> nat" where
  "countingController c rq st = (Inr 200, Suc st)"

section \<open>BorrowEquipment page: the request form\<close>










section \<open>StudentDashboard page: the borrow button\<close>





section \<open>Calendar dates\<close>












section \<open>Decision records\<close>



section \<open>Frame of the three handlers\<close>

text \<open>
  C10. Each of \<^verbatim>\<open>handleApprove\<close>, \<^verbatim>\<open>handleReject\<close> and
  \<^verbatim>\<open>handleMarkReturned\<close> keeps the list's length, leaves every request whose id
  differs from the target equal to what it was, and on any request (so also on the target)
  keeps the ten fields other than status, approver, decision date and notes.
\<close>

theorem handlers_frame:
  assumes "i < length (requests st)"
    and "st' = handleApprove usr now requestId st
         \<or> st' = handleReject usr now requestId st
         \<or> st' = handleMarkReturned requestId st"
  shows "length (requests st') = length (requests st)
    \<and> (reqId (requests st ! i) \<noteq> requestId \<longrightarrow> requests st' ! i = requests st ! i)
    \<and> reqId (requests st' ! i) = reqId (requests st ! i)
    \<and> studentName (requests st' ! i) = studentName (requests st ! i)
    \<and> studentId (requests st' ! i) = studentId (requests st ! i)
    \<and> studentEmail (requests st' ! i) = studentEmail (requests st ! i)
    \<and> equipmentName (requests st' ! i) = equipmentName (requests st ! i)
    \<and> equipmentId (requests st' ! i) = equipmentId (requests st ! i)
    \<and> requestedDate (requests st' ! i) = requestedDate (requests st ! i)
    \<and> borrowFromDate (requests st' ! i) = borrowFromDate (requests st ! i)
    \<and> borrowToDate (requests st' ! i) = borrowToDate (requests st ! i)
    \<and> purpose (requests st' ! i) = purpose (requests st ! i)"
  using assms by (auto simp add: handleApprove_def handleReject_def handleMarkReturned_def)

theorem handlers_frame_witness:
  "(1::nat) < length (requests initialState)
   \<and> reqId (requests initialState ! 1) \<noteq> 3
   \<and> requests (handleMarkReturned 3 initialState) ! 1 = requests initialState ! 1
   \<and> purpose (requests (handleMarkReturned 3 initialState) ! 1) = ''Biology lab experiment''"
  using handlers_frame [of 1 initialState "handleMarkReturned 3 initialState" adminUser
      "''2025-11-03T09:30:00.000Z''" 3]
  by (simp add: initialState_def mockRequestsData_def)

section \<open>Request life cycle\<close>

text \<open>
  The handlers carry no guard of their own; the guard is in what the page renders. The
  lemmas below follow one event at a time.
\<close>

lemma filtered_subset: "set (getFilteredRequests toLowerCase st) \<subseteq> set (requests st)"
  by (auto simp: getFilteredRequests_def Let_def)

lemma ids_kept:
  "map reqId (requests (handleApprove usr now rid st)) = map reqId (requests st)"
  "map reqId (requests (handleReject usr now rid st)) = map reqId (requests st)"
  "map reqId (requests (handleMarkReturned rid st)) = map reqId (requests st)"
  by (simp_all add: handleApprove_def handleReject_def handleMarkReturned_def comp_def)

lemma modal_closed:
  "actionModal (handleApprove usr now rid st) = None"
  "actionModal (handleReject usr now rid st) = None"
  "actionModal (handleMarkReturned rid st) = None"
  by (simp_all add: handleApprove_def handleReject_def handleMarkReturned_def)

lemma pageInv_closed:
  "distinct (map reqId (requests st)) \<Longrightarrow> actionModal st = None \<Longrightarrow> pageInv st"
  by (simp add: pageInv_def modalConsistent_def)

lemma pageInv_same_requests:
  "pageInv st \<Longrightarrow> requests st' = requests st \<Longrightarrow> actionModal st' = actionModal st
     \<Longrightarrow> pageInv st'"
  by (auto simp add: pageInv_def modalConsistent_def split: option.splits)

lemma pageInv_close:
  "pageInv st \<Longrightarrow> requests st' = requests st \<Longrightarrow> actionModal st' = None
     \<Longrightarrow> pageInv st'"
  by (simp add: pageInv_def modalConsistent_def)

lemma pageInv_open:
  assumes "pageInv st" and "i < length (getFilteredRequests toLowerCase st)"
    and "status (getFilteredRequests toLowerCase st ! i) = requiredStatus a"
    and "requests st' = requests st"
    and "actionModal st' = Some (reqId (getFilteredRequests toLowerCase st ! i), a)"
  shows "pageInv st'"
proof -
  let ?row = "getFilteredRequests toLowerCase st ! i"
  have mem: "?row \<in> set (requests st)"
    using assms(2) filtered_subset nth_mem by blast
  have d: "distinct (map reqId (requests st))"
    using assms(1) by (simp add: pageInv_def)
  have "r = ?row" if "r \<in> set (requests st)" "reqId r = reqId ?row" for r
    using d that mem by (meson distinct_map inj_onD)
  then have "list_all (\<lambda>r. reqId r \<noteq> reqId ?row \<or> status r = requiredStatus a) (requests st)"
    using assms(3) by (auto simp: list_all_iff)
  then show ?thesis
    using d assms(4,5) by (simp add: pageInv_def modalConsistent_def)
qed

lemma step_pageInv:
  assumes "pageInv st" and "step toLowerCase usr ev st = Some st'"
  shows "pageInv st'"
proof (cases ev)
  case (TypeSearch s)
  then show ?thesis using assms by (auto intro: pageInv_same_requests)
next
  case (SelectFilter f)
  then show ?thesis using assms by (auto intro: pageInv_same_requests)
next
  case (ClickView i)
  then show ?thesis using assms by (auto intro: pageInv_same_requests split: if_splits)
next
  case CloseDetails
  then show ?thesis using assms by (auto intro: pageInv_same_requests split: if_splits)
next
  case (ClickApprove i)
  then show ?thesis using assms
    by (auto intro!: pageInv_open [where a = ApproveAction and i = i and st = st]
        simp: requiredStatus_def split: if_splits)
next
  case (ClickReject i)
  then show ?thesis using assms
    by (auto intro!: pageInv_open [where a = RejectAction and i = i and st = st]
        simp: requiredStatus_def split: if_splits)
next
  case (ClickReturn i)
  then show ?thesis using assms
    by (auto intro!: pageInv_open [where a = ReturnAction and i = i and st = st]
        simp: requiredStatus_def split: if_splits)
next
  case (TypeNotes s)
  then show ?thesis using assms by (auto intro: pageInv_same_requests split: if_splits)
next
  case CancelModal
  then show ?thesis using assms by (auto intro: pageInv_close split: if_splits)
next
  case (ConfirmModal now)
  then show ?thesis using assms
    by (auto simp: pageInv_def modalConsistent_def ids_kept modal_closed
        split: option.splits action.splits)
qed


lemma run_pageInv:
  "pageInv st \<Longrightarrow> run toLowerCase usr evs st = Some st' \<Longrightarrow> pageInv st'"
proof (induction evs arbitrary: st)
  case Nil
  then show ?case by simp
next
  case (Cons ev evs)
  then obtain mid where m: "step toLowerCase usr ev st = Some mid" and r: "run toLowerCase usr evs mid = Some st'"
    by (auto split: option.splits)
  from Cons.prems(1) m have "pageInv mid" by (rule step_pageInv)
  then show ?case using r by (rule Cons.IH)
qed

lemma step_requests:
  assumes "step toLowerCase usr ev st = Some st'"
  shows "requests st' = requests st
    \<or> (\<exists>now rid. ev = ConfirmModal now \<and>
          (actionModal st = Some (rid, ApproveAction) \<and> st' = handleApprove usr now rid st
           \<or> actionModal st = Some (rid, RejectAction) \<and> st' = handleReject usr now rid st
           \<or> actionModal st = Some (rid, ReturnAction) \<and> st' = handleMarkReturned rid st))"
proof (cases ev)
  case (ConfirmModal now)
  then show ?thesis using assms by (auto split: option.splits action.splits)
qed (use assms in \<open>auto split: if_splits\<close>)

lemma modal_target_status:
  assumes "pageInv st" and "actionModal st = Some (rid, a)" and "i < length (requests st)"
    and "reqId (requests st ! i) = rid"
  shows "status (requests st ! i) = requiredStatus a"
  using assms by (auto simp: pageInv_def modalConsistent_def list_all_length)

lemma approve_status:
  "i < length (requests st) \<Longrightarrow>
   status (requests (handleApprove usr now rid st) ! i) =
     (if reqId (requests st ! i) = rid then Approved else status (requests st ! i))"
  by (simp add: handleApprove_def)

lemma reject_status:
  "i < length (requests st) \<Longrightarrow>
   status (requests (handleReject usr now rid st) ! i) =
     (if reqId (requests st ! i) = rid then Rejected else status (requests st ! i))"
  by (simp add: handleReject_def)

lemma return_status:
  "i < length (requests st) \<Longrightarrow>
   status (requests (handleMarkReturned rid st) ! i) =
     (if reqId (requests st ! i) = rid then Returned else status (requests st ! i))"
  by (simp add: handleMarkReturned_def)

lemma handlers_length:
  "length (requests (handleApprove usr now rid st)) = length (requests st)"
  "length (requests (handleReject usr now rid st)) = length (requests st)"
  "length (requests (handleMarkReturned rid st)) = length (requests st)"
  by (simp_all add: handleApprove_def handleReject_def handleMarkReturned_def)

lemma step_edge:
  assumes "pageInv st" and "step toLowerCase usr ev st = Some st'" and "i < length (requests st)"
  shows "length (requests st') = length (requests st)
    \<and> (status (requests st' ! i) = status (requests st ! i)
        \<or> edge (status (requests st ! i)) (status (requests st' ! i)))"
proof -
  consider (same) "requests st' = requests st"
    | (approve) now rid where "actionModal st = Some (rid, ApproveAction)"
        "st' = handleApprove usr now rid st"
    | (reject) now rid where "actionModal st = Some (rid, RejectAction)"
        "st' = handleReject usr now rid st"
    | (return) rid where "actionModal st = Some (rid, ReturnAction)"
        "st' = handleMarkReturned rid st"
    using step_requests [OF assms(2)] by blast
  then show ?thesis
  proof cases
    case same
    then show ?thesis by simp
  next
    case approve
    have "reqId (requests st ! i) = rid \<Longrightarrow> status (requests st ! i) = Pending"
      using modal_target_status [OF assms(1) approve(1) assms(3)]
      by (simp add: requiredStatus_def)
    then show ?thesis
      using assms(3) by (simp add: approve(2) approve_status handlers_length edge_def)
  next
    case reject
    have "reqId (requests st ! i) = rid \<Longrightarrow> status (requests st ! i) = Pending"
      using modal_target_status [OF assms(1) reject(1) assms(3)]
      by (simp add: requiredStatus_def)
    then show ?thesis
      using assms(3) by (simp add: reject(2) reject_status handlers_length edge_def)
  next
    case return
    have "reqId (requests st ! i) = rid \<Longrightarrow> status (requests st ! i) = Approved"
      using modal_target_status [OF assms(1) return(1) assms(3)]
      by (simp add: requiredStatus_def)
    then show ?thesis
      using assms(3) by (simp add: return(2) return_status handlers_length edge_def)
  qed
qed

text \<open>
  C1 (as amended). Start the page with unique request ids and no modal open, and let the
  admin use its controls in any order: the Approve and Reject buttons exist only on rows
  whose status is pending, the Returned button only on rows whose status is approved, and
  the modal's confirm button applies the stored action to the stored id. Then every single
  step leaves each request's status as it was or moves it along one of the edges
  pending to approved, pending to rejected, approved to returned. The handlers alone do
  not give this: they overwrite the status whatever it was.
\<close>

theorem lifecycle_edges:
  assumes "distinct (map reqId (requests st0))"
    and "actionModal st0 = None"
    and "run toLowerCase usr evs st0 = Some st"
    and "step toLowerCase usr ev st = Some st'"
    and "i < length (requests st)"
  shows "length (requests st') = length (requests st)
    \<and> (status (requests st' ! i) = status (requests st ! i)
        \<or> edge (status (requests st ! i)) (status (requests st' ! i)))"
proof -
  have "pageInv st0" using assms(1,2) by (rule pageInv_closed)
  then have "pageInv st" using assms(3) by (rule run_pageInv)
  then show ?thesis using assms(4,5) by (rule step_edge)
qed


theorem lifecycle_edges_witness:
  "distinct (map reqId (requests initialState))
   \<and> actionModal initialState = None
   \<and> run asciiLowerCase adminUser [ClickApprove 0, TypeNotes ''ok''] initialState =
       Some (initialState\<lparr>actionModal := Some (1, ApproveAction), actionNotes := ''ok''\<rparr>)
   \<and> step asciiLowerCase adminUser (ConfirmModal ''2025-11-03T09:30:00.000Z'')
         (initialState\<lparr>actionModal := Some (1, ApproveAction), actionNotes := ''ok''\<rparr>) =
       Some (handleApprove adminUser ''2025-11-03T09:30:00.000Z'' 1
         (initialState\<lparr>actionModal := Some (1, ApproveAction), actionNotes := ''ok''\<rparr>))
   \<and> status (requests (initialState\<lparr>actionModal := Some (1, ApproveAction),
         actionNotes := ''ok''\<rparr>) ! 0) = Pending
   \<and> status (requests (handleApprove adminUser ''2025-11-03T09:30:00.000Z'' 1
         (initialState\<lparr>actionModal := Some (1, ApproveAction), actionNotes := ''ok''\<rparr>)) ! 0)
       = Approved
   \<and> edge Pending Approved"
proof -
  let ?mid = "initialState\<lparr>actionModal := Some (1, ApproveAction), actionNotes := ''ok''\<rparr>"
  let ?now = "''2025-11-03T09:30:00.000Z''"
  have d: "distinct (map reqId (requests initialState))"
    by (simp add: initialState_def mockRequestsData_def)
  have m: "actionModal initialState = None" by (simp add: initialState_def)
  have rows: "getFilteredRequests asciiLowerCase initialState = mockRequestsData"
    by (simp add: getFilteredRequests_def initialState_def)
  have r: "run asciiLowerCase adminUser [ClickApprove 0, TypeNotes ''ok''] initialState = Some ?mid"
    by (simp add: rows) (simp add: mockRequestsData_def initialState_def)
  have s: "step asciiLowerCase adminUser (ConfirmModal ?now) ?mid = Some (handleApprove adminUser ?now 1 ?mid)"
    by simp
  have l: "(0::nat) < length (requests ?mid)"
    by (simp add: initialState_def mockRequestsData_def)
  have p: "status (requests ?mid ! 0) = Pending"
    by (simp add: initialState_def mockRequestsData_def)
  have a: "status (requests (handleApprove adminUser ?now 1 ?mid) ! 0) = Approved"
    by (simp add: handleApprove_def initialState_def mockRequestsData_def)
  from lifecycle_edges [OF d m r s l] p a have "edge Pending Approved" by simp
  with d m r s p a show ?thesis by simp
qed

text \<open>
  The claim as stated fails on the handlers themselves. \<^verbatim>\<open>handleApprove\<close> with
  the id of the rejected request 5, or of the returned request 4, sets that request to
  approved; \<^verbatim>\<open>handleMarkReturned\<close> with the id of the pending request 1 sets it to
  returned.
\<close>

theorem unguarded_handlers:
  "status (requests initialState ! 4) = Rejected
   \<and> reqId (requests initialState ! 4) = 5
   \<and> status (requests (handleApprove adminUser ''2025-11-03T09:30:00.000Z'' 5 initialState) ! 4)
       = Approved
   \<and> status (requests initialState ! 3) = Returned
   \<and> reqId (requests initialState ! 3) = 4
   \<and> status (requests (handleApprove adminUser ''2025-11-03T09:30:00.000Z'' 4 initialState) ! 3)
       = Approved
   \<and> status (requests initialState ! 0) = Pending
   \<and> reqId (requests initialState ! 0) = 1
   \<and> status (requests (handleMarkReturned 1 initialState) ! 0) = Returned"
  by (simp add: initialState_def mockRequestsData_def handleApprove_def handleMarkReturned_def)

section \<open>The admin's request filter\<close>

text \<open>\<^verbatim>\<open>includes\<close> is containment as a contiguous run.\<close>

lemma includes_str_iff: "includes_str s t \<longleftrightarrow> (\<exists>a b. s = a @ t @ b)"
proof (induction s)
  case Nil
  then show ?case by auto
next
  case (Cons c cs)
  show ?case
  proof
    assume "includes_str (c # cs) t"
    then consider "prefix t (c # cs)" | "includes_str cs t" by auto
    then show "\<exists>a b. c # cs = a @ t @ b"
    proof cases
      case 1
      then obtain b where "c # cs = t @ b" by (auto simp: prefix_def)
      then have "c # cs = [] @ t @ b" by simp
      then show ?thesis by blast
    next
      case 2
      then obtain a b where "cs = a @ t @ b" using Cons.IH by blast
      then have "c # cs = (c # a) @ t @ b" by simp
      then show ?thesis by blast
    qed
  next
    assume "\<exists>a b. c # cs = a @ t @ b"
    then obtain a b where ab: "c # cs = a @ t @ b" by blast
    show "includes_str (c # cs) t"
    proof (cases a)
      case Nil
      then have "prefix t (c # cs)" using ab by (simp add: prefix_def)
      then show ?thesis by simp
    next
      case (Cons x a')
      then have "cs = a' @ t @ b" using ab by simp
      then have "includes_str cs t" using Cons.IH by blast
      then show ?thesis by simp
    qed
  qed
qed

text \<open>
  C8 (as amended). For every list of requests, every non-empty search term and every
  status selection, \<^verbatim>\<open>getFilteredRequests\<close> returns, in the list's order, exactly
  the requests whose status is the selected one (any status when the selection is
  \<^verbatim>\<open>'all'\<close>) and whose student name, equipment name or student id contains the
  search term once both are passed through \<^verbatim>\<open>toLowerCase\<close>, whatever fold of letter
  case the platform's \<^verbatim>\<open>toLowerCase\<close> is. The student id is the third searched
  field, as the search box's placeholder announces.
\<close>

theorem filter_exact:
  assumes "searchTerm st \<noteq> []"
  shows "getFilteredRequests toLowerCase st =
    filter (\<lambda>req.
        (filterStatus st = AllStatuses \<or> filterStatus st = Only (status req))
      \<and> ((\<exists>a b. toLowerCase (studentName req) = a @ toLowerCase (searchTerm st) @ b)
         \<or> (\<exists>a b. toLowerCase (equipmentName req) = a @ toLowerCase (searchTerm st) @ b)
         \<or> (\<exists>a b. toLowerCase (studentId req) = a @ toLowerCase (searchTerm st) @ b)))
      (requests st)"
  using assms
  by (auto simp add: getFilteredRequests_def Let_def includes_str_iff intro!: filter_cong)

theorem filter_exact_witness:
  "searchTerm (initialState\<lparr>searchTerm := ''stu001''\<rparr>) \<noteq> []
   \<and> [mockRequestsData ! 0] =
    filter (\<lambda>req.
        (filterStatus (initialState\<lparr>searchTerm := ''stu001''\<rparr>) = AllStatuses
         \<or> filterStatus (initialState\<lparr>searchTerm := ''stu001''\<rparr>) = Only (status req))
      \<and> ((\<exists>a b. asciiLowerCase (studentName req) = a @ asciiLowerCase ''stu001'' @ b)
         \<or> (\<exists>a b. asciiLowerCase (equipmentName req) = a @ asciiLowerCase ''stu001'' @ b)
         \<or> (\<exists>a b. asciiLowerCase (studentId req) = a @ asciiLowerCase ''stu001'' @ b)))
      mockRequestsData"
proof -
  have g: "getFilteredRequests asciiLowerCase (initialState\<lparr>searchTerm := ''stu001''\<rparr>) = [mockRequestsData ! 0]"
    by (simp add: getFilteredRequests_def initialState_def mockRequestsData_def
      asciiLowerCase_def asciiLowerChar_def)
  have n: "searchTerm (initialState\<lparr>searchTerm := ''stu001''\<rparr>) \<noteq> []" by simp
  have r: "requests (initialState\<lparr>searchTerm := ''stu001''\<rparr>) = mockRequestsData"
    by (simp add: initialState_def)
  show ?thesis
    using filter_exact [where toLowerCase = asciiLowerCase, OF n] n unfolding g r by simp
qed

text \<open>
  The claim as stated, with the two name fields only, fails: the search term
  \<^verbatim>\<open>stu001\<close> returns John Student's request for the basketball set, whose student id
  is \<^verbatim>\<open>STU001\<close>, although neither of its name fields contains the term. Every
  string involved is ASCII, where \<^verbatim>\<open>toLowerCase\<close> is \<open>asciiLowerCase\<close>.
\<close>

theorem search_matches_student_id:
  "getFilteredRequests asciiLowerCase (initialState\<lparr>searchTerm := ''stu001''\<rparr>) = [mockRequestsData ! 0]
   \<and> studentName (mockRequestsData ! 0) = ''John Student''
   \<and> equipmentName (mockRequestsData ! 0) = ''Basketball Set''
   \<and> \<not> includes_str (asciiLowerCase ''John Student'') (asciiLowerCase ''stu001'')
   \<and> \<not> includes_str (asciiLowerCase ''Basketball Set'') (asciiLowerCase ''stu001'')"
  by (simp add: getFilteredRequests_def initialState_def mockRequestsData_def
      asciiLowerCase_def asciiLowerChar_def)

section \<open>Approval, return and the inventory\<close>

text \<open>
  C2 (as amended). For every pending request, whatever the available count of the
  equipment it names, zero included, approving it sets its status to approved; no
  capacity error exists, and no equipment's available count changes, neither through the
  requests page's \<^verbatim>\<open>handleApprove\<close> nor through the dashboard's
  \<^verbatim>\<open>handleApproveRequest\<close>.
\<close>

theorem approve_ignores_inventory:
  assumes "i < length (requests (page p))"
    and "reqId (requests (page p) ! i) = requestId"
    and "status (requests (page p) ! i) = Pending"
  shows "status (requests (page (approveOnPage usr now requestId p)) ! i) = Approved
    \<and> inventory (approveOnPage usr now requestId p) = inventory p
    \<and> inventory (approveOnDashboard requestId p) = inventory p
    \<and> (\<forall>j < length (adRequests (dashboard p)).
          rrId (adRequests (dashboard p) ! j) = requestId \<longrightarrow>
          rrStatus (adRequests (dashboard (approveOnDashboard requestId p)) ! j) = Approved)"
  using assms
  by (simp add: approveOnPage_def approveOnDashboard_def handleApprove_def handleApproveRequest_def)

theorem approve_ignores_inventory_witness:
  "(5::nat) < length (requests (page samplePortal))
   \<and> reqId (requests (page samplePortal) ! 5) = 6
   \<and> status (requests (page samplePortal) ! 5) = Pending
   \<and> status (requests (page (approveOnPage adminUser ''2025-11-03T09:30:00.000Z'' 6 samplePortal)) ! 5)
       = Approved
   \<and> inventory (approveOnPage adminUser ''2025-11-03T09:30:00.000Z'' 6 samplePortal)
       = inventory samplePortal"
  using approve_ignores_inventory [of 5 samplePortal 6 adminUser "''2025-11-03T09:30:00.000Z''"]
  by (simp add: samplePortal_def initialState_def mockRequestsData_def toolkitRequest_def)

text \<open>
  The claim as stated fails at both ends: request 6, pending, names the toolkit, of which
  no unit is available, and approving it sets it to approved; request 1, pending, names
  the basketball set with three units available, and after its approval three are
  available still.
\<close>

theorem approve_without_capacity:
  "status (requests (page samplePortal) ! 5) = Pending
   \<and> reqId (requests (page samplePortal) ! 5) = 6
   \<and> equipmentId (requests (page samplePortal) ! 5) = 6
   \<and> availableOf 6 (inventory samplePortal) = [0]
   \<and> status (requests (page (approveOnPage adminUser ''2025-11-03T09:30:00.000Z'' 6 samplePortal)) ! 5)
       = Approved
   \<and> status (requests (page samplePortal) ! 0) = Pending
   \<and> reqId (requests (page samplePortal) ! 0) = 1
   \<and> equipmentId (requests (page samplePortal) ! 0) = 1
   \<and> availableOf 1 (inventory samplePortal) = [3]
   \<and> availableOf 1 (inventory (approveOnPage adminUser ''2025-11-03T09:30:00.000Z'' 1 samplePortal))
       = [3]"
  by (simp add: samplePortal_def initialState_def mockRequestsData_def toolkitRequest_def
      approveOnPage_def handleApprove_def availableOf_def)

text \<open>
  C3 (as amended). For every request in status approved, marking it returned sets its
  status to returned and changes no equipment's available count.
\<close>

theorem return_ignores_inventory:
  assumes "i < length (requests (page p))"
    and "reqId (requests (page p) ! i) = requestId"
    and "status (requests (page p) ! i) = Approved"
  shows "status (requests (page (returnOnPage requestId p)) ! i) = Returned
    \<and> inventory (returnOnPage requestId p) = inventory p"
  using assms by (simp add: returnOnPage_def handleMarkReturned_def)

theorem return_ignores_inventory_witness:
  "(2::nat) < length (requests (page samplePortal))
   \<and> reqId (requests (page samplePortal) ! 2) = 3
   \<and> status (requests (page samplePortal) ! 2) = Approved
   \<and> status (requests (page (returnOnPage 3 samplePortal)) ! 2) = Returned
   \<and> inventory (returnOnPage 3 samplePortal) = inventory samplePortal"
  using return_ignores_inventory [of 2 samplePortal 3]
  by (simp add: samplePortal_def initialState_def mockRequestsData_def)

text \<open>
  The claim as stated fails in its second half: request 3, approved, names the camera
  with two units available; after \<^verbatim>\<open>handleMarkReturned\<close> it is returned and two
  units are available, not three.
\<close>

theorem return_without_restock:
  "status (requests (page samplePortal) ! 2) = Approved
   \<and> reqId (requests (page samplePortal) ! 2) = 3
   \<and> equipmentId (requests (page samplePortal) ! 2) = 3
   \<and> availableOf 3 (inventory samplePortal) = [2]
   \<and> status (requests (page (returnOnPage 3 samplePortal)) ! 2) = Returned
   \<and> availableOf 3 (inventory (returnOnPage 3 samplePortal)) = [2]"
  by (simp add: samplePortal_def initialState_def mockRequestsData_def
      returnOnPage_def handleMarkReturned_def availableOf_def)

section \<open>Logout\<close>

text \<open>
  C9. Whatever the store held before, after \<^verbatim>\<open>authLogout\<close> (which is
  \<^verbatim>\<open>clearAuthData\<close>) \<^verbatim>\<open>getToken()\<close> returns \<^verbatim>\<open>null\<close> and
  \<^verbatim>\<open>getUser()\<close> returns \<^verbatim>\<open>null\<close>, without reaching \<^verbatim>\<open>JSON.parse\<close>.
\<close>

theorem logout_clears_session:
  "getToken (authLogout ls) = None \<and> getUser parse (authLogout ls) = Inr None"
  by (simp add: authLogout_def clearAuthData_def clearUser_def clearToken_def getToken_def
      getUser_def TOKEN_KEY_def USER_KEY_def)

section \<open>Login\<close>

lemma emailRegex_testI:
  assumes "classRun a" and "classRun b" and "classRun c"
  shows "emailRegex_test (a @ CHR ''@'' # b @ CHR ''.'' # c)"
proof -
  let ?s = "a @ CHR ''@'' # b @ CHR ''.'' # c"
  let ?i = "length a"
  let ?j = "length a + 1 + length b"
  have i: "?i \<in> set [0 ..< length ?s]" by simp
  have "?i + 1 \<le> ?j" and "?j < length ?s" by simp_all
  then have j: "?j \<in> set [?i + 1 ..< length ?s]"
    by (simp only: set_upt atLeastLessThan_iff)
  have 1: "take ?i ?s = a" by simp
  have 2: "?s ! ?i = CHR ''@''" by simp
  have 3: "take (?j - (?i + 1)) (drop (?i + 1) ?s) = b" by simp
  have 4: "?s ! ?j = CHR ''.''"
    by (simp add: nth_append)
  have 5: "drop (?j + 1) ?s = c" by simp
  have "classRun (take ?i ?s) \<and> ?s ! ?i = CHR ''@''
        \<and> classRun (take (?j - (?i + 1)) (drop (?i + 1) ?s)) \<and> ?s ! ?j = CHR ''.''
        \<and> classRun (drop (?j + 1) ?s)"
    unfolding 1 3 5 using assms 2 4 by blast
  then show ?thesis
    unfolding emailRegex_test_def list_ex_iff using i j by blast
qed

lemma mock_emails_valid:
  "emailRegex_test ''student@example.com''"
  "emailRegex_test ''staff@example.com''"
  "emailRegex_test ''admin@example.com''"
  using emailRegex_testI [of "''student''" "''example''" "''com''"]
    emailRegex_testI [of "''staff''" "''example''" "''com''"]
    emailRegex_testI [of "''admin''" "''example''" "''com''"]
  by (simp_all add: classRun_def isSpace_def)

lemma wrong_role:
  assumes "u \<in> set mockUsers" and "formEmail fd = email u"
    and "formPassword fd = password u" and "formRole fd \<noteq> role u"
  shows "handleSubmit fd ls = (loginFailed
      ''Invalid email, password, or role. Please check your credentials.'', ls)"
proof -
  from assms(1) consider "u = mockUsers ! 0" | "u = mockUsers ! 1" | "u = mockUsers ! 2"
    by (auto simp: mockUsers_def)
  then show ?thesis
  proof cases
    case 1
    then show ?thesis using assms(2-4) mock_emails_valid
      by (simp add: handleSubmit_def mockUsers_def)
  next
    case 2
    then show ?thesis using assms(2-4) mock_emails_valid
      by (simp add: handleSubmit_def mockUsers_def)
  next
    case 3
    then show ?thesis using assms(2-4) mock_emails_valid
      by (simp add: handleSubmit_def mockUsers_def)
  qed
qed

lemma login_only_on_match:
  assumes "onLoginCall (fst (handleSubmit fd ls)) = Some usr"
  shows "\<exists>a \<in> set mockUsers. email a = formEmail fd \<and> password a = formPassword fd
      \<and> role a = formRole fd
      \<and> usr = \<lparr>uid = uid a, name = name a, email = email a, role = role a\<rparr>"
proof -
  obtain a where f: "find (\<lambda>u. email u = formEmail fd \<and> password u = formPassword fd
                        \<and> role u = formRole fd) mockUsers = Some a"
    and u: "usr = \<lparr>uid = uid a, name = name a, email = email a, role = role a\<rparr>"
    using assms
    by (auto simp: handleSubmit_def loginFailed_def split: if_splits option.splits)
  from f have "a \<in> set mockUsers \<and> email a = formEmail fd \<and> password a = formPassword fd
      \<and> role a = formRole fd"
    by (auto simp: find_Some_iff)
  with u show ?thesis by blast
qed

lemma storage_untouched: "snd (handleSubmit fd ls) = ls"
  by (simp add: handleSubmit_def split: option.splits)

text \<open>
  C5. If the e-mail and password of the form are those of a registered user and the
  selected role is not that user's role, \<^verbatim>\<open>handleSubmit\<close> ends with the
  invalid-credentials message, calls neither \<^verbatim>\<open>onLogin\<close> nor
  \<^verbatim>\<open>navigate\<close>, and leaves the token store as it was. And whenever
  \<^verbatim>\<open>onLogin\<close> is called, for any form, its argument is a registered user whose
  e-mail, password and role all equal the form's.
\<close>

theorem login_requires_role:
  assumes "u \<in> set mockUsers" and "formEmail fd = email u"
    and "formPassword fd = password u" and "formRole fd \<noteq> role u"
  shows "fst (handleSubmit fd ls) = loginFailed
      ''Invalid email, password, or role. Please check your credentials.''
    \<and> onLoginCall (fst (handleSubmit fd ls)) = None
    \<and> navigateCall (fst (handleSubmit fd ls)) = None
    \<and> getToken (snd (handleSubmit fd ls)) = getToken ls
    \<and> (\<forall>fd' ls' usr. onLoginCall (fst (handleSubmit fd' ls')) = Some usr \<longrightarrow>
          (\<exists>a \<in> set mockUsers. email a = formEmail fd' \<and> password a = formPassword fd'
            \<and> role a = formRole fd'
            \<and> usr = \<lparr>uid = uid a, name = name a, email = email a, role = role a\<rparr>))"
  using wrong_role [OF assms, of ls] login_only_on_match
  by (simp add: loginFailed_def)

theorem login_requires_role_witness:
  "mockUsers ! 0 \<in> set mockUsers
   \<and> email (mockUsers ! 0) = ''student@example.com''
   \<and> password (mockUsers ! 0) = ''password123''
   \<and> role (mockUsers ! 0) = Student
   \<and> fst (handleSubmit \<lparr>formEmail = ''student@example.com'', formPassword = ''password123'',
         formRole = Admin\<rparr> Map.empty) = loginFailed
      ''Invalid email, password, or role. Please check your credentials.''
   \<and> getToken (snd (handleSubmit \<lparr>formEmail = ''student@example.com'',
         formPassword = ''password123'', formRole = Admin\<rparr> Map.empty)) = None"
  using login_requires_role [of "mockUsers ! 0"
      "\<lparr>formEmail = ''student@example.com'', formPassword = ''password123'', formRole = Admin\<rparr>"
      Map.empty]
  by (simp add: mockUsers_def getToken_def)

section \<open>Admin-only routes\<close>

lemma route_never_admin:
  "\<not> isAdmin usr \<Longrightarrow> \<not> isAdminElement (routeElement usr rt)"
  by (cases rt) (auto simp add: routeElement_def isAdminElement_def isAdmin_def
      split: option.splits)

lemma admin_route_redirects:
  "\<not> isAdmin usr \<Longrightarrow> rt \<in> set adminRoutes \<Longrightarrow> routeElement usr rt = NavigateEl ''/login''"
  by (auto simp add: routeElement_def adminRoutes_def isAdmin_def split: option.splits)

lemma visit_never_admin:
  "\<not> isAdmin usr \<Longrightarrow> visit matchRoute fuel usr location = Some (el, usr')
    \<Longrightarrow> \<not> isAdminElement el \<and> usr' = usr"
proof (induction fuel arbitrary: location)
  case 0
  then show ?case by simp
next
  case (Suc fuel)
  show ?case
  proof (cases "routeElement usr (matchRoute location)")
    case (NavigateEl target)
    then have "visit matchRoute fuel usr target = Some (el, usr')" using Suc.prems(2) by simp
    then show ?thesis using Suc.IH Suc.prems(1) by blast
  qed (use Suc.prems route_never_admin [of usr "matchRoute location"] in
      \<open>auto simp: isAdminElement_def\<close>)
qed

lemma admin_visit_lands_on_login:
  assumes "\<not> isAdmin usr" and "matchRoute location \<in> set adminRoutes"
    and "matchRoute ''/login'' = LoginRoute"
  shows "visit matchRoute 2 usr location = Some (LoginFormEl, usr)"
proof -
  have 1: "routeElement usr (matchRoute location) = NavigateEl ''/login''"
    using assms(1,2) by (rule admin_route_redirects)
  have 2: "routeElement usr (matchRoute ''/login'') = LoginFormEl"
    by (simp add: assms(3) routeElement_def)
  have "visit matchRoute (Suc (Suc 0)) usr location = Some (LoginFormEl, usr)"
    by (simp add: 1 2)
  then show ?thesis by (simp add: numeral_2_eq_2)
qed

lemma admin_routes_gated:
  "r \<in> set requestRoutes \<Longrightarrow> handler r \<in> set adminControllers
    \<Longrightarrow> gates r = [authenticate, adminOnly]"
  by (auto simp add: requestRoutes_def adminControllers_def)

lemma non_admin_denied:
  assumes "gates r = [authenticate, adminOnly]" and "\<not> isAdmin (caller verify rq)"
  shows "dispatch (specGate verify) ctl r rq st = (Inl (denial (caller verify rq)), st)"
proof (cases "caller verify rq")
  case None
  then have "authorize verify (credential rq) (allowedRoles authenticate) = Inl Unauthenticated"
    by (auto simp add: caller_def authorize_def split: option.splits)
  then show ?thesis
    using assms(1) None by (simp add: dispatch_def specGate_def denial_def)
next
  case (Some u)
  then obtain token where c: "credential rq = Some token" and v: "verify token = Some u"
    by (auto simp add: caller_def split: option.splits)
  have n: "role u \<noteq> Admin" using assms(2) Some by (simp add: isAdmin_def)
  have 1: "authorize verify (credential rq) (allowedRoles authenticate) = Inr u"
    using c v by (cases "role u") (simp_all add: authorize_def allowedRoles_def)
  have 2: "authorize verify (credential (rq\<lparr>actor := Some u\<rparr>)) (allowedRoles adminOnly)
      = Inl Forbidden"
    using c v n by (simp add: authorize_def allowedRoles_def)
  show ?thesis
    using assms(1) Some 1 2 by (simp add: dispatch_def specGate_def denial_def)
qed

lemma admin_admitted:
  assumes "gates r = [authenticate, adminOnly]" and "caller verify rq = Some u"
    and "role u = Admin"
  shows "dispatch (specGate verify) ctl r rq st = ctl (handler r) (rq\<lparr>actor := Some u\<rparr>) st"
proof -
  obtain token where c: "credential rq = Some token" and v: "verify token = Some u"
    using assms(2) by (auto simp add: caller_def split: option.splits)
  have 1: "authorize verify (credential rq) (allowedRoles authenticate) = Inr u"
    using c v assms(3) by (simp add: authorize_def allowedRoles_def)
  have 2: "authorize verify (credential (rq\<lparr>actor := Some u\<rparr>)) (allowedRoles adminOnly) = Inr u"
    using c v assms(3) by (simp add: authorize_def allowedRoles_def)
  show ?thesis using assms(1) 1 2 by (simp add: dispatch_def specGate_def)
qed

text \<open>
  The gate does let an admin through: with the admin's token the approve route runs its
  controller.
\<close>

lemma admin_reaches_controller:
  "dispatch (specGate sampleVerify) countingController (requestRoutes ! 3)
         \<lparr>credential = Some ''token-of-admin'', actor = None\<rparr> 0
       = (Inr 200, 1)"
  using admin_admitted [of "requestRoutes ! 3" sampleVerify
      "\<lparr>credential = Some ''token-of-admin'', actor = None\<rparr>" adminUser countingController 0]
  by (simp add: requestRoutes_def caller_def sampleVerify_def adminUser_def
      countingController_def)

text \<open>
  C6. Let the user be absent or have a role other than admin. In the front end, each of
  the three admin routes (dashboard, equipment management, requests) renders the redirect
  to \<^verbatim>\<open>/login\<close> instead of its page; whatever way the router matches locations to
  routes, a visit to a location that selects an admin route ends on the login form, no
  visit at all, through any chain of redirects, ends on an admin page, and a visit leaves
  the application's user state as it was. In the back end, every route whose controller
  is the request listing, approve, reject, return or the admin statistics is registered
  with \<^verbatim>\<open>authenticate, adminOnly\<close> in front of the controller; with these two being
  the authorization gate of the specification, every request of that caller to such a
  route is answered \<^verbatim>\<open>Unauthenticated\<close> (no valid credential) or \<^verbatim>\<open>Forbidden\<close>
  (valid credential, not an admin), the controller does not run whatever it is, and the
  server state is the one before the request.
\<close>

theorem admin_gate:
  assumes "\<not> isAdmin usr"
  shows "(\<forall>rt \<in> set adminRoutes. routeElement usr rt = NavigateEl ''/login'')
    \<and> (\<forall>matchRoute location. matchRoute location \<in> set adminRoutes
          \<and> matchRoute ''/login'' = LoginRoute \<longrightarrow>
          visit matchRoute 2 usr location = Some (LoginFormEl, usr))
    \<and> (\<forall>matchRoute fuel location el usr'.
          visit matchRoute fuel usr location = Some (el, usr') \<longrightarrow>
          \<not> isAdminElement el \<and> usr' = usr)
    \<and> (\<forall>r \<in> set requestRoutes. handler r \<in> set adminControllers \<longrightarrow>
          gates r = [authenticate, adminOnly]
          \<and> (\<forall>verify rq ctl st. caller verify rq = usr \<longrightarrow>
                dispatch (specGate verify) ctl r rq st
                  = ((Inl (denial usr) :: auth_error + 'a), (st::'st))))"
proof (intro conjI ballI allI impI)
  fix rt assume "rt \<in> set adminRoutes"
  then show "routeElement usr rt = NavigateEl ''/login''"
    using assms admin_route_redirects by blast
next
  fix matchRoute location
  assume "matchRoute location \<in> set adminRoutes \<and> matchRoute ''/login'' = LoginRoute"
  then show "visit matchRoute 2 usr location = Some (LoginFormEl, usr)"
    using assms admin_visit_lands_on_login by blast
next
  fix matchRoute fuel location el usr'
  assume "visit matchRoute fuel usr location = Some (el, usr')"
  then show "\<not> isAdminElement el" using assms visit_never_admin by blast
next
  fix matchRoute fuel location el usr'
  assume "visit matchRoute fuel usr location = Some (el, usr')"
  then show "usr' = usr" using assms visit_never_admin by blast
next
  fix r assume "r \<in> set requestRoutes" "handler r \<in> set adminControllers"
  then show "gates r = [authenticate, adminOnly]" by (rule admin_routes_gated)
next
  fix r verify rq and ctl :: "controller \<Rightarrow> http_request \<Rightarrow> 'st \<Rightarrow> (auth_error + 'a) \<times> 'st"
    and st :: 'st
  assume r: "r \<in> set requestRoutes" "handler r \<in> set adminControllers"
    and c: "caller verify rq = usr"
  from r have g: "gates r = [authenticate, adminOnly]" by (rule admin_routes_gated)
  have "\<not> isAdmin (caller verify rq)" using assms c by simp
  with g have "dispatch (specGate verify) ctl r rq st = (Inl (denial (caller verify rq)), st)"
    by (rule non_admin_denied)
  then show "dispatch (specGate verify) ctl r rq st = (Inl (denial usr), st)"
    using c by simp
qed


theorem admin_gate_witness:
  "\<not> isAdmin (Some studentUser)
   \<and> RequestsRoute \<in> set adminRoutes
   \<and> routeElement (Some studentUser) RequestsRoute = NavigateEl ''/login''
   \<and> matchPath ''/Requests/'' = RequestsRoute
   \<and> matchPath ''/login'' = LoginRoute
   \<and> visit matchPath 2 (Some studentUser) ''/Requests/''
       = Some (LoginFormEl, Some studentUser)
   \<and> requestRoutes ! 3 \<in> set requestRoutes
   \<and> handler (requestRoutes ! 3) = approveRequest
   \<and> handler (requestRoutes ! 3) \<in> set adminControllers
   \<and> caller sampleVerify \<lparr>credential = Some ''token-of-student'', actor = None\<rparr>
       = Some studentUser
   \<and> dispatch (specGate sampleVerify) countingController (requestRoutes ! 3)
         \<lparr>credential = Some ''token-of-student'', actor = None\<rparr> 0
       = (Inl Forbidden, 0)"
proof -
  let ?rq = "\<lparr>credential = Some ''token-of-student'', actor = None\<rparr>"
  have a: "\<not> isAdmin (Some studentUser)" by (simp add: isAdmin_def studentUser_def)
  have p: "RequestsRoute \<in> set adminRoutes" by (simp add: adminRoutes_def)
  have m1: "matchPath ''/Requests/'' = RequestsRoute"
    by (simp add: matchPath_def stripTrailingSlashes_def routePath_def asciiLowerCase_def
        asciiLowerChar_def)
  have m2: "matchPath ''/login'' = LoginRoute"
    by (simp add: matchPath_def stripTrailingSlashes_def routePath_def asciiLowerCase_def
        asciiLowerChar_def)
  have r: "requestRoutes ! 3 \<in> set requestRoutes" by (simp add: requestRoutes_def)
  have h: "handler (requestRoutes ! 3) = approveRequest" by (simp add: requestRoutes_def)
  have c: "handler (requestRoutes ! 3) \<in> set adminControllers"
    by (simp add: h adminControllers_def)
  have w: "caller sampleVerify ?rq = Some studentUser"
    by (simp add: caller_def sampleVerify_def)
  note g = admin_gate [OF a, where 'a = nat and 'st = nat]
  note front = g [THEN conjunct1, THEN bspec, OF p]
  note land = g [THEN conjunct2, THEN conjunct1, rule_format, of matchPath "''/Requests/''"]
  note srv = g [THEN conjunct2, THEN conjunct2, THEN conjunct2, THEN bspec, OF r, THEN mp,
      OF c, THEN conjunct2, rule_format, OF w, of countingController 0]
  have 2: "visit matchPath 2 (Some studentUser) ''/Requests/''
      = Some (LoginFormEl, Some studentUser)"
    using land m1 m2 p by simp
  have 3: "dispatch (specGate sampleVerify) countingController (requestRoutes ! 3) ?rq 0
      = (Inl Forbidden, 0)"
    using srv by (simp add: denial_def)
  from a p front m1 m2 2 r h c w 3 show ?thesis by (intro conjI)
qed

section \<open>Creating a borrow request\<close>









end
